theory Spec2Isabelle
  imports Main "HOL-Library.Sublist" "HOL-Library.Multiset" "HOL-Library.AList"
begin

section \<open>The Spanner example client (spannerexample/main.go)\<close>

text \<open>
  The program is one Go file: it opens two client handles, creates a database with a
  two-table schema, writes ten rows in two batches and reads one table back. Every
  call that leaves the process (the client constructors, the administrative request,
  \<open>Apply\<close>, the query iterator, \<open>uuid.NewRandom\<close>, the logger) is modelled as an
  event of a trace; what such a call answers is read from a \<open>world\<close>, a record of the
  answers of the outside, so that a theorem about all worlds covers every behaviour of
  the library and the service.
\<close>

subsection \<open>The pattern of \<open>createDatabase\<close>\<close>

text \<open>
  \<open>regexp.MustCompile("^(.*)/databases/(.*)$")\<close> uses four constructs of Go's regexp
  syntax: \<open>^\<close> (beginning of the text), \<open>$\<close> (end of the text; the flag \<open>m\<close> is off),
  a literal, and the capture group \<open>(.*)\<close>, where \<open>.\<close> is any character but the newline
  (the flag \<open>s\<close> is off) and \<open>*\<close> is greedy. A pattern is the list of its constructs.
  Go strings are byte strings and the literal is ASCII, so matching on bytes finds the
  same match as matching on runes.
\<close>

datatype tok = Bol | Eol | Lit string | CapDotStar

definition dot :: "char \<Rightarrow> bool" where
  "dot c = (c \<noteq> CHR 0x0A)"

text \<open>
  \<open>match_toks ts pos s\<close> matches the constructs \<open>ts\<close> against the text \<open>s\<close> that
  starts at offset \<open>pos\<close>, and returns the captured groups and the text left
  after the match. Go returns the match a backtracking search finds first: a greedy
  group tries its longest extent first (\<open>try_len\<close>, from \<open>k\<close> characters down to none).
\<close>

fun match_toks :: "tok list \<Rightarrow> nat \<Rightarrow> string \<Rightarrow> (string list \<times> string) option"
  and try_len :: "tok list \<Rightarrow> nat \<Rightarrow> string \<Rightarrow> nat \<Rightarrow> (string list \<times> string) option" where
  "match_toks [] pos s = Some ([], s)"
| "match_toks (Bol # ts) pos s = (if pos = 0 then match_toks ts pos s else None)"
| "match_toks (Eol # ts) pos s = (if s = [] then match_toks ts pos s else None)"
| "match_toks (Lit l # ts) pos s =
     (if take (length l) s = l then match_toks ts (pos + length l) (drop (length l) s)
      else None)"
| "match_toks (CapDotStar # ts) pos s = try_len ts pos s (length (takeWhile dot s))"
| "try_len ts pos s k =
     (case match_toks ts (pos + k) (drop k s) of
        Some (caps, rest) \<Rightarrow> Some (take k s # caps, rest)
      | None \<Rightarrow> (case k of 0 \<Rightarrow> None | Suc j \<Rightarrow> try_len ts pos s j))"

text \<open>The leftmost match: the start offsets are tried from the left.\<close>

fun search :: "tok list \<Rightarrow> nat \<Rightarrow> string \<Rightarrow> string list option" where
  "search ts pos s =
     (case match_toks ts pos s of
        Some (caps, rest) \<Rightarrow> Some (take (length s - length rest) s # caps)
      | None \<Rightarrow> (case s of [] \<Rightarrow> None | c # cs \<Rightarrow> search ts (Suc pos) cs))"

text \<open>
  \<open>FindStringSubmatch\<close> returns the whole match followed by the groups, or nil
  (\<open>None\<close>) when the text has no match.
\<close>

definition FindStringSubmatch :: "tok list \<Rightarrow> string \<Rightarrow> string list option" where
  "FindStringSubmatch re s = search re 0 s"

definition db_pattern :: "tok list" where
  "db_pattern = [Bol, CapDotStar, Lit ''/databases/'', CapDotStar, Eol]"

subsection \<open>Errors, requests, mutations and events\<close>

datatype code = OK | Canceled | Unknown | InvalidArgument | DeadlineExceeded | NotFound
  | AlreadyExists | PermissionDenied | ResourceExhausted | FailedPrecondition | Aborted
  | OutOfRange | Unimplemented | Internal | Unavailable | DataLoss | Unauthenticated

text \<open>
  An error is a plain Go error with its message (\<open>fmt.Errorf\<close>), an error that carries
  a gRPC status code, or the sentinel \<open>iterator.Done\<close>, which the code compares by
  identity.
\<close>

datatype error = Errorf string | StatusError code string | Done

text \<open>\<open>spanner.ErrCode\<close>: the code of a status error, \<open>Unknown\<close> for any other error.\<close>

fun ErrCode :: "error \<Rightarrow> code" where
  "ErrCode (StatusError c m) = c"
| "ErrCode (Errorf m) = Unknown"
| "ErrCode Done = Unknown"

datatype handle = AdminHandle | DataHandle

record Client =
  admin :: handle
  client :: handle

record Singer =
  SingerId :: string
  FirstName :: string
  LastName :: string
  SingerInfo :: string

record Album =
  SingerId :: string
  AlbumId :: string
  AlbumTitle :: string

record CreateDatabaseRequest =
  Parent :: string
  CreateStatement :: string
  ExtraStatements :: "string list"

datatype Mutation = InsertOrUpdate string "string list" "string list"

datatype zap_field = zap_String string string | zap_Int string int | zap_Error error

datatype event =
    EvNewDatabaseAdminClient
  | EvNewClient string
  | EvCreateDatabase CreateDatabaseRequest
  | EvWait
  | EvNewRandom
  | EvApply "Mutation list"
  | EvQuery string
  | EvNext
  | EvStop
  | EvAdminClose
  | EvClientClose
  | EvInfo string "zap_field list"
  | EvFatal string "zap_field list"
  | EvSync

text \<open>
  A row of the query is opaque to the program: all it does with one is
  \<open>row.Columns(&singerID, &albumID, &albumTitle)\<close>, which gives three strings or an
  error. An iterator hands out finitely many rows and then an error, \<open>Done\<close> when the
  result is exhausted.
\<close>

datatype Row = Row (Columns: "error + string \<times> string \<times> string")

datatype RowIterator = RowIterator (rows: "Row list") (final: error)

subsection \<open>The outside: the answers of the library and the tables of the service\<close>

text \<open>
  The two tables of the schema, keyed as the DDL declares them:
  \<open>Singers\<close> by \<open>SingerId\<close>, \<open>Albums\<close> by \<open>(SingerId, AlbumId)\<close>.
\<close>

record store =
  Singers_tbl :: "(string \<times> string \<times> string) list"
  Albums_tbl :: "((string \<times> string) \<times> string) list"

record world =
  NewDatabaseAdminClient_err :: "error option"
  NewClient_err :: "string \<Rightarrow> error option"
  CreateDatabase_err :: "CreateDatabaseRequest \<Rightarrow> error option"
  Wait_err :: "error option"
  NewRandom_res :: "nat \<Rightarrow> error + string"
  Apply_err :: "Mutation list \<Rightarrow> error option"
  Query_iter :: "string \<Rightarrow> ((string \<times> string) \<times> string) list \<Rightarrow> RowIterator"

text \<open>
  \<open>InsertOrUpdate\<close> writes the row under its primary key: inserted when the key is
  absent, overwritten when it is present. Only the two shapes of mutation the program
  builds are interpreted.
\<close>

definition singerColumns :: "string list" where
  "singerColumns = [''SingerId'', ''FirstName'', ''LastName'']"

definition albumColumns :: "string list" where
  "albumColumns = [''SingerId'', ''AlbumId'', ''AlbumTitle'']"

fun apply_mutation :: "Mutation \<Rightarrow> store \<Rightarrow> store" where
  "apply_mutation (InsertOrUpdate t cols [a, b, c]) s =
     (if t = ''Singers'' \<and> cols = singerColumns
      then s\<lparr>Singers_tbl := AList.update a (b, c) (Singers_tbl s)\<rparr>
      else if t = ''Albums'' \<and> cols = albumColumns
      then s\<lparr>Albums_tbl := AList.update (a, b) c (Albums_tbl s)\<rparr>
      else s)"
| "apply_mutation (InsertOrUpdate t cols vals) s = s"

text \<open>
  \<open>client.Apply\<close> is one transaction: it fails and writes nothing, or writes every
  mutation of the batch in order.
\<close>

definition Apply :: "world \<Rightarrow> Mutation list \<Rightarrow> store \<Rightarrow> error option \<times> store" where
  "Apply w ms s =
     (case Apply_err w ms of
        Some err \<Rightarrow> (Some err, s)
      | None \<Rightarrow> (None, fold apply_mutation ms s))"

subsection \<open>The functions of main.go\<close>

text \<open>\<open>Client.Close\<close>: two deferred calls, run last-in first-out.\<close>

definition Client_Close :: "Client \<Rightarrow> event list" where
  "Client_Close c = [EvClientClose, EvAdminClose]"

definition createClients :: "world \<Rightarrow> string \<Rightarrow> (error + Client) \<times> event list" where
  "createClients w db =
     (case NewDatabaseAdminClient_err w of
        Some err \<Rightarrow> (Inl err, [EvNewDatabaseAdminClient])
      | None \<Rightarrow>
          (case NewClient_err w db of
             Some err \<Rightarrow> (Inl err, [EvNewDatabaseAdminClient, EvNewClient db])
           | None \<Rightarrow>
               (Inr \<lparr>admin = AdminHandle, client = DataHandle\<rparr>,
                [EvNewDatabaseAdminClient, EvNewClient db])))"

definition nl :: string where
  "nl = [CHR 0x0A]"

definition backtick :: string where
  "backtick = [CHR 0x60]"

definition ddl_Singers :: string where
  "ddl_Singers =
     ''CREATE TABLE Singers ('' @ nl @
     ''         SingerId   STRING(1024) NOT NULL,'' @ nl @
     ''         FirstName  STRING(1024),'' @ nl @
     ''         LastName   STRING(1024),'' @ nl @
     ''         SingerInfo BYTES(MAX)'' @ nl @
     ''        ) PRIMARY KEY (SingerId)''"

definition ddl_Albums :: string where
  "ddl_Albums =
     ''CREATE TABLE Albums ('' @ nl @
     ''         SingerId     STRING(1024) NOT NULL,'' @ nl @
     ''         AlbumId      STRING(1024) NOT NULL,'' @ nl @
     ''         AlbumTitle   STRING(MAX)'' @ nl @
     ''        ) PRIMARY KEY (SingerId, AlbumId),'' @ nl @
     ''        INTERLEAVE IN PARENT Singers ON DELETE CASCADE''"

text \<open>
  Lines 58 to 61 of \<open>createDatabase\<close>: the identifier is matched against the pattern;
  no match, or a match that has not exactly three entries, is the error
  \<open>Invalid database id\<close>; otherwise the two groups are the parent and the name.
\<close>

definition database_id_matches :: "string \<Rightarrow> error + string \<times> string" where
  "database_id_matches db =
     (case FindStringSubmatch db_pattern db of
        None \<Rightarrow> Inl (Errorf (''Invalid database id '' @ db))
      | Some matches \<Rightarrow>
          (if length matches \<noteq> 3 then Inl (Errorf (''Invalid database id '' @ db))
           else Inr (matches ! 1, matches ! 2)))"

definition createDatabase :: "world \<Rightarrow> string \<Rightarrow> error option \<times> event list" where
  "createDatabase w db =
     (case database_id_matches db of
        Inl err \<Rightarrow> (Some err, [])
      | Inr (parent, name) \<Rightarrow>
          (let req = \<lparr>Parent = parent,
                      CreateStatement = ''CREATE DATABASE '' @ backtick @ name @ backtick,
                      ExtraStatements = [ddl_Singers, ddl_Albums]\<rparr>
           in case CreateDatabase_err w req of
                Some err \<Rightarrow> (Some err, [EvCreateDatabase req])
              | None \<Rightarrow>
                  (case Wait_err w of
                     Some err \<Rightarrow> (Some err, [EvCreateDatabase req, EvWait])
                   | None \<Rightarrow>
                       (None, [EvCreateDatabase req, EvWait,
                               EvInfo ''Created database'' [zap_String ''db'' db]]))))"

text \<open>
  The loop \<open>for i := 0; i < 10; i++\<close> of \<open>insert\<close>: a failing \<open>uuid.NewRandom\<close>
  returns its error at once; otherwise the identifier is stored at index \<open>i\<close> and
  logged.
\<close>

function uuid_loop :: "world \<Rightarrow> nat \<Rightarrow> string list \<Rightarrow> (error + string list) \<times> event list" where
  "uuid_loop w i uuids =
     (if i < 10 then
        (case NewRandom_res w i of
           Inl err \<Rightarrow> (Inl err, [EvNewRandom])
         | Inr u \<Rightarrow>
             (case uuid_loop w (i + 1) (uuids[i := u]) of
                (res, evs) \<Rightarrow>
                  (res, EvNewRandom #
                        EvInfo ''uuid'' [zap_Int ''index'' (int i),
                                         zap_String ''UUID'' (uuids[i := u] ! i)] # evs)))
      else (Inr uuids, []))"
  by pat_completeness auto
termination
  by (relation "measure (\<lambda>(w, i, uuids). 10 - i)") auto

declare uuid_loop.simps [simp del]

definition singer_mutations :: "string list \<Rightarrow> Mutation list" where
  "singer_mutations uuids =
     [InsertOrUpdate ''Singers'' singerColumns [uuids ! 0, ''Marc'', ''Richards''],
      InsertOrUpdate ''Singers'' singerColumns [uuids ! 1, ''Catalina'', ''Smith''],
      InsertOrUpdate ''Singers'' singerColumns [uuids ! 2, ''Alice'', ''Trentor''],
      InsertOrUpdate ''Singers'' singerColumns [uuids ! 3, ''Lea'', ''Martin''],
      InsertOrUpdate ''Singers'' singerColumns [uuids ! 4, ''David'', ''Lomond'']]"

definition album_mutations :: "string list \<Rightarrow> Mutation list" where
  "album_mutations uuids =
     [InsertOrUpdate ''Albums'' albumColumns [uuids ! 0, uuids ! 5, ''Total Junk''],
      InsertOrUpdate ''Albums'' albumColumns [uuids ! 1, uuids ! 6, ''Go, Go, Go''],
      InsertOrUpdate ''Albums'' albumColumns [uuids ! 0, uuids ! 7, ''Green''],
      InsertOrUpdate ''Albums'' albumColumns [uuids ! 1, uuids ! 8, ''Forever Hold Your Peace''],
      InsertOrUpdate ''Albums'' albumColumns [uuids ! 2, uuids ! 9, ''Terrified'']]"

text \<open>
  \<open>insert\<close> (named \<open>insert_records\<close> here, after its log message): \<open>make([]string, 10)\<close>
  is ten empty strings; \<open>m1\<close> and \<open>m2\<close> are built from the identifiers; the second
  \<open>Apply\<close> is reached only when the first returned no error.
\<close>

definition insert_records :: "world \<Rightarrow> store \<Rightarrow> error option \<times> store \<times> event list" where
  "insert_records w s =
     (case uuid_loop w 0 (replicate 10 []) of
        (Inl err, evs) \<Rightarrow> (Some err, s, evs)
      | (Inr uuids, evs) \<Rightarrow>
          (let m1 = singer_mutations uuids;
               m2 = album_mutations uuids
           in case Apply w m1 s of
                (Some err, s1) \<Rightarrow> (Some err, s1, evs @ [EvApply m1])
              | (None, s1) \<Rightarrow>
                  (case Apply w m2 s1 of
                     (err, s2) \<Rightarrow> (err, s2, evs @ [EvApply m1, EvApply m2]))))"

text \<open>
  The loop of \<open>queryAlbums\<close>: each turn calls \<open>iter.Next\<close>; \<open>Done\<close> returns the albums
  collected, any other error of \<open>Next\<close> or of \<open>Columns\<close> returns that error.
\<close>

fun queryAlbums_loop :: "Row list \<Rightarrow> error \<Rightarrow> Album list \<Rightarrow> (error + Album list) \<times> event list" where
  "queryAlbums_loop [] fin albums =
     (if fin = Done then (Inr albums, [EvNext]) else (Inl fin, [EvNext]))"
| "queryAlbums_loop (row # later) fin albums =
     (case Columns row of
        Inl err \<Rightarrow> (Inl err, [EvNext])
      | Inr (singerID, albumID, albumTitle) \<Rightarrow>
          (case queryAlbums_loop later fin
                  (albums @ [\<lparr>SingerId = singerID, AlbumId = albumID,
                              AlbumTitle = albumTitle\<rparr>]) of
             (res, evs) \<Rightarrow> (res, EvNext # evs)))"

text \<open>\<open>defer iter.Stop()\<close> runs when \<open>queryAlbums\<close> returns, whatever it returns.\<close>

definition queryAlbums :: "world \<Rightarrow> store \<Rightarrow> (error + Album list) \<times> event list" where
  "queryAlbums w s =
     (let stmt = ''SELECT SingerId, AlbumId, AlbumTitle FROM Albums'';
          iter = Query_iter w stmt (Albums_tbl s)
      in case queryAlbums_loop (rows iter) (final iter) [] of
           (res, evs) \<Rightarrow> (res, EvQuery stmt # evs @ [EvStop]))"

text \<open>
  \<open>logger.Fatal\<close> writes the entry and calls \<open>os.Exit(1)\<close>: the process ends there and
  no deferred call runs. A return from \<open>main\<close> runs the deferred \<open>logger.Sync\<close>.
\<close>

datatype exit = Returned | Exit int

definition fatal :: "string \<Rightarrow> string \<Rightarrow> error \<Rightarrow> event" where
  "fatal msg db err = EvFatal msg [zap_String ''db'' db, zap_Error err]"

definition row_log :: "Album \<Rightarrow> event" where
  "row_log a =
     EvInfo ''row'' [zap_String ''SingerID'' (Album.SingerId a),
                     zap_String ''AlbumID'' (AlbumId a),
                     zap_String ''AlbumTitle'' (AlbumTitle a)]"

text \<open>
  \<open>main\<close> with its literal identifier as a parameter: \<open>main_for db\<close> is the body of
  \<open>main\<close> for the identifier \<open>db\<close>.
\<close>

definition main_for :: "string \<Rightarrow> world \<Rightarrow> store \<Rightarrow> exit \<times> store \<times> event list" where
  "main_for db w s =
     (case createClients w db of
        (Inl err, ev1) \<Rightarrow> (Exit 1, s, ev1 @ [fatal ''Create client'' db err])
      | (Inr c, ev1) \<Rightarrow>
          (case createDatabase w db of
             (err, ev2) \<Rightarrow>
               (case (case err of
                        None \<Rightarrow> None
                      | Some e \<Rightarrow> if ErrCode e \<noteq> AlreadyExists then Some e else None) of
                  Some e \<Rightarrow> (Exit 1, s, ev1 @ ev2 @ [fatal ''Create database'' db e])
                | None \<Rightarrow>
                    (case insert_records w s of
                       (Some e, s1, ev3) \<Rightarrow>
                         (Exit 1, s1, ev1 @ ev2 @ ev3 @ [fatal ''insert records'' db e])
                     | (None, s1, ev3) \<Rightarrow>
                         (case queryAlbums w s1 of
                            (Inl e, ev4) \<Rightarrow>
                              (Exit 1, s1,
                               ev1 @ ev2 @ ev3 @ ev4 @ [fatal ''query records'' db e])
                          | (Inr albums, ev4) \<Rightarrow>
                              (Returned, s1,
                               ev1 @ ev2 @ ev3 @ ev4 @ map row_log albums @ [EvSync]))))))"

definition main :: "world \<Rightarrow> store \<Rightarrow> exit \<times> store \<times> event list" where
  "main w s =
     main_for ''projects/create-table-test/instances/test-instance/databases/example-db'' w s"

subsection \<open>Predicates on rows and events, and concrete services\<close>

text \<open>
  \<open>splits_at l s j\<close>: at offset \<open>j\<close> the text \<open>s\<close> continues with the literal \<open>l\<close>, and
  what follows the literal has no newline, so that \<open>(.*)$\<close> matches it.
\<close>

definition splits_at :: "string \<Rightarrow> string \<Rightarrow> nat \<Rightarrow> bool" where
  "splits_at l s j = (take (length l) (drop j s) = l \<and> list_all dot (drop (j + length l) s))"

text \<open>
  What \<open>spanner.NewClient\<close> of the client library does with the name before it
  connects: a name that does not match
  \<open>^projects/[^/]+/instances/[^/]+/databases/[^/]+$\<close> is refused with an error and no
  connection is opened. The name matches when its pieces between the slashes are
  \<open>projects\<close>, a project, \<open>instances\<close>, an instance, \<open>databases\<close> and a database, the
  three names not empty; a negated class such as \<open>[^/]\<close> also matches the newline.
\<close>

fun split_slash :: "string \<Rightarrow> string list" where
  "split_slash [] = [[]]"
| "split_slash (c # cs) =
     (if c = CHR ''/'' then [] # split_slash cs
      else (case split_slash cs of
              [] \<Rightarrow> [[c]]
            | seg # segs \<Rightarrow> (c # seg) # segs))"

definition validDatabaseName :: "string \<Rightarrow> bool" where
  "validDatabaseName db =
     (let segs = split_slash db
      in length segs = 6 \<and>
         segs ! 0 = ''projects'' \<and> segs ! 1 \<noteq> [] \<and>
         segs ! 2 = ''instances'' \<and> segs ! 3 \<noteq> [] \<and>
         segs ! 4 = ''databases'' \<and> segs ! 5 \<noteq> [])"

definition NewClient_library :: "string \<Rightarrow> error option" where
  "NewClient_library db =
     (if validDatabaseName db then None
      else Some (StatusError InvalidArgument
                   (''database name should conform to pattern: '' @ db)))"

text \<open>A world in which every call succeeds but the random source.\<close>

definition quiet_world :: world where
  "quiet_world = \<lparr>NewDatabaseAdminClient_err = None, NewClient_err = NewClient_library,
     CreateDatabase_err = (\<lambda>req. None), Wait_err = None,
     NewRandom_res = (\<lambda>i. Inl (Errorf ''no entropy'')),
     Apply_err = (\<lambda>ms. None),
     Query_iter = (\<lambda>stmt tbl. RowIterator [] Done)\<rparr>"

text \<open>
  A row decodes when \<open>Columns\<close> returns no error; \<open>album_of_row\<close> is the \<open>Album\<close> the
  loop builds from such a row.
\<close>

definition decodes :: "Row \<Rightarrow> bool" where
  "decodes r = (\<not> isl (Columns r))"

definition album_of_row :: "Row \<Rightarrow> Album" where
  "album_of_row r =
     (case projr (Columns r) of
        (singerID, albumID, albumTitle) \<Rightarrow>
          \<lparr>SingerId = singerID, AlbumId = albumID, AlbumTitle = albumTitle\<rparr>)"

text \<open>
  A world whose query hands out a given iterator, and the store of a database that
  was just created: both tables empty.
\<close>

definition iter_world :: "RowIterator \<Rightarrow> world" where
  "iter_world it = quiet_world\<lparr>Query_iter := (\<lambda>stmt tbl. it)\<rparr>"

definition empty_store :: store where
  "empty_store = \<lparr>Singers_tbl = [], Albums_tbl = []\<rparr>"

text \<open>
  The events of the ten turns of the loop of \<open>insert\<close> when every call of
  \<open>uuid.NewRandom\<close> succeeds, the \<open>i\<close>-th with the identifier \<open>u i\<close>.
\<close>

definition uuid_events :: "(nat \<Rightarrow> string) \<Rightarrow> nat list \<Rightarrow> event list" where
  "uuid_events u is =
     concat (map (\<lambda>i. [EvNewRandom,
                         EvInfo ''uuid'' [zap_Int ''index'' (int i), zap_String ''UUID'' (u i)]]) is)"

text \<open>The events that are a call of \<open>client.Apply\<close>.\<close>

definition is_Apply :: "event \<Rightarrow> bool" where
  "is_Apply e = (case e of EvApply ms \<Rightarrow> True | _ \<Rightarrow> False)"

text \<open>
  The triple (SingerId, AlbumId, AlbumTitle) of an album record, and of a stored row of
  the table \<open>Albums\<close>.
\<close>

definition album_triple :: "Album \<Rightarrow> string \<times> string \<times> string" where
  "album_triple a = (Album.SingerId a, AlbumId a, AlbumTitle a)"

definition stored_triple :: "(string \<times> string) \<times> string \<Rightarrow> string \<times> string \<times> string" where
  "stored_triple kv = (fst (fst kv), snd (fst kv), snd kv)"

text \<open>The identifiers of two runs.\<close>

definition uuids_first :: "string list" where
  "uuids_first =
     [''0f8b2c1e-6d3a-4e57-9a41-b7c2d5e8f001'', ''1a7c9e40-2b5d-4f68-8c13-d4e6f7a8b902'',
      ''2d4e6f81-3c7b-4a29-b5d4-e8f9a0b1c203'', ''3b9d1f62-4e8c-4b3a-a6e5-f0a1b2c3d404'',
      ''4c0e2a73-5f9d-4c4b-97f6-a1b2c3d4e505'', ''5e1f3b84-60ae-4d5c-88a7-b2c3d4e5f606'',
      ''6f2a4c95-71bf-4e6d-b9b8-c3d4e5f6a707'', ''7a3b5da6-82c0-4f7e-aac9-d4e5f6a7b808'',
      ''8b4c6eb7-93d1-408f-9bda-e5f6a7b8c909'', ''9c5d7fc8-a4e2-4190-8ceb-f6a7b8c9d010'']"

definition uuids_rerun :: "string list" where
  "uuids_rerun =
     [''a0d6e8f9-b5f3-42a1-9dfc-a7b8c9d0e111'', ''b1e7f90a-c604-43b2-8e0d-b8c9d0e1f212'',
      ''c2f80a1b-d715-44c3-bf1e-c9d0e1f2a313'', ''d3091b2c-e826-45d4-a02f-d0e1f2a3b414'',
      ''e41a2c3d-f937-46e5-9130-e1f2a3b4c515'', ''f52b3d4e-0a48-47f6-8241-f2a3b4c5d616'',
      ''063c4e5f-1b59-4807-b352-a3b4c5d6e717'', ''174d5f60-2c6a-4918-a463-b4c5d6e7f818'',
      ''285e6071-3d7b-4a29-9574-c5d6e7f8a919'', ''396f7182-4e8c-4b3a-8685-d6e7f8a9b020'']"

text \<open>
  A service that answers every call without error (the library refusing only a name it
  does not accept), hands out the given identifiers and answers the query with the rows
  of the table, in the order it stores them.
\<close>

definition stored_rows :: "((string \<times> string) \<times> string) list \<Rightarrow> Row list" where
  "stored_rows tbl = map (\<lambda>kv. Row (Inr (stored_triple kv))) tbl"

definition demo_world :: "string list \<Rightarrow> error option \<Rightarrow> world" where
  "demo_world us created =
     \<lparr>NewDatabaseAdminClient_err = None, NewClient_err = NewClient_library,
      CreateDatabase_err = (\<lambda>req. created), Wait_err = None,
      NewRandom_res = (\<lambda>i. if i < length us then Inr (us ! i)
                            else Inl (Errorf ''no entropy'')),
      Apply_err = (\<lambda>ms. None),
      Query_iter = (\<lambda>stmt tbl. RowIterator (stored_rows tbl) Done)\<rparr>"

definition first_world :: world where
  "first_world = demo_world uuids_first None"

definition rerun_world :: world where
  "rerun_world =
     demo_world uuids_rerun (Some (StatusError AlreadyExists ''Database already exists''))"

text \<open>A service that refuses every batch written to the table \<open>Singers\<close>.\<close>

definition singers_refused_world :: world where
  "singers_refused_world =
     first_world\<lparr>Apply_err :=
       (\<lambda>ms. case ms of
               [] \<Rightarrow> None
             | InsertOrUpdate t cols vals # later \<Rightarrow>
                 if t = ''Singers'' then Some (StatusError Unavailable ''try again'')
                 else None)\<rparr>"




text \<open>The two events of \<open>Client.Close\<close>.\<close>

definition is_Close :: "event \<Rightarrow> bool" where
  "is_Close e = (e = EvAdminClose \<or> e = EvClientClose)"

text \<open>A service that refuses to create the database.\<close>

definition denied_world :: world where
  "denied_world =
     demo_world uuids_first (Some (StatusError PermissionDenied ''caller lacks permission''))"

text \<open>
  The literal identifier of \<open>main\<close>, an identifier with no database segment, and the
  literal identifier followed by a newline: the library accepts the last, the pattern
  of \<open>createDatabase\<close> does not.
\<close>

definition example_db :: string where
  "example_db = ''projects/create-table-test/instances/test-instance/databases/example-db''"



section \<open>The pattern matcher\<close>

declare try_len.simps [simp del]
declare search.simps [simp del]

lemma try_len_Eol_short:
  "k < length t \<Longrightarrow> try_len [Eol] pos t k = None"
proof (induction k)
  case 0
  then show ?case by (simp add: try_len.simps [of _ _ _ 0])
next
  case (Suc k)
  then show ?case by (simp add: try_len.simps [of _ _ _ "Suc k"])
qed

lemma try_len_Eol:
  "k \<le> length t \<Longrightarrow>
   try_len [Eol] pos t k = (if k = length t then Some ([t], []) else None)"
  by (cases "k = length t") (simp_all add: try_len.simps [of _ _ t "length t"] try_len_Eol_short)

lemma takeWhile_full: "(length (takeWhile P xs) = length xs) = list_all P xs"
  by (induction xs) (auto simp: list_all_iff)

lemma match_tail:
  "match_toks [CapDotStar, Eol] pos t = (if list_all dot t then Some ([t], []) else None)"
  by (simp add: try_len_Eol length_takeWhile_le takeWhile_full del: match_toks.simps(3))

lemma match_Lit_tail:
  "match_toks [Lit l, CapDotStar, Eol] pos t =
     (if splits_at l t 0 then Some ([drop (length l) t], []) else None)"
  by (simp add: match_tail splits_at_def del: match_toks.simps(5))

declare match_toks.simps [simp del]

lemma splits_at_drop: "splits_at l (drop k s) 0 = splits_at l s k"
  by (simp add: splits_at_def add.commute)

lemma try_len_none:
  "(\<And>i. i \<le> k \<Longrightarrow> \<not> splits_at l s i) \<Longrightarrow> try_len [Lit l, CapDotStar, Eol] pos s k = None"
proof (induction k)
  case 0
  then show ?case by (simp add: try_len.simps [of _ _ _ 0] match_Lit_tail splits_at_drop)
next
  case (Suc k)
  then show ?case by (simp add: try_len.simps [of _ _ _ "Suc k"] match_Lit_tail splits_at_drop)
qed

lemma try_len_last:
  "splits_at l s j \<Longrightarrow> j \<le> k \<Longrightarrow> (\<And>i. j < i \<Longrightarrow> i \<le> k \<Longrightarrow> \<not> splits_at l s i) \<Longrightarrow>
   try_len [Lit l, CapDotStar, Eol] pos s k = Some ([take j s, drop (j + length l) s], [])"
proof (induction k)
  case 0
  then show ?case by (simp add: try_len.simps [of _ _ _ 0] match_Lit_tail splits_at_drop)
next
  case (Suc k)
  show ?case
  proof (cases "j = Suc k")
    case True
    with Suc.prems(1) show ?thesis
      by (simp add: try_len.simps [of _ _ _ "Suc k"] match_Lit_tail splits_at_drop add.commute)
  next
    case False
    with Suc.prems have jk: "j \<le> k" and no: "\<not> splits_at l s (Suc k)" by auto
    have "try_len [Lit l, CapDotStar, Eol] pos s k = Some ([take j s, drop (j + length l) s], [])"
      using Suc.IH [OF Suc.prems(1) jk] Suc.prems(3) by auto
    with no show ?thesis
      by (simp add: try_len.simps [of _ _ _ "Suc k"] match_Lit_tail splits_at_drop)
  qed
qed

lemma search_Bol_later: "0 < pos \<Longrightarrow> search (Bol # ts) pos s = None"
  by (induction s arbitrary: pos)
    (simp_all add: search.simps [of _ _ "[]"] search.simps [of _ _ "_ # _"] match_toks.simps(2))

lemma match_db_pattern:
  "match_toks db_pattern 0 s = try_len [Lit ''/databases/'', CapDotStar, Eol] 0 s (length (takeWhile dot s))"
  by (simp add: db_pattern_def match_toks.simps)

lemma search_db_pattern:
  "search db_pattern 0 s = (case match_toks db_pattern 0 s of None \<Rightarrow> None
      | Some (caps, rest) \<Rightarrow> Some (take (length s - length rest) s # caps))"
  by (cases s) (simp_all add: search.simps [of _ 0] db_pattern_def search_Bol_later split: option.splits)

lemma splits_at_sublist: "splits_at l s i \<Longrightarrow> sublist l (drop i s)"
proof -
  assume "splits_at l s i"
  then have "take (length l) (drop i s) = l" by (simp add: splits_at_def)
  then have "drop i s = l @ drop (length l) (drop i s)"
    by (metis append_take_drop_id)
  then show ?thesis by (metis sublist_appendI append_Nil)
qed

lemma sublist_drop: "sublist l (drop i s) \<Longrightarrow> sublist l s"
  by (metis append_take_drop_id sublist_appendI sublist_def append.assoc)

lemma splits_at_none: "\<not> sublist l s \<Longrightarrow> \<not> splits_at l s i"
  using splits_at_sublist sublist_drop by blast

lemma no_segment_no_match:
  "\<not> sublist ''/databases/'' s \<Longrightarrow> FindStringSubmatch db_pattern s = None"
  by (simp add: FindStringSubmatch_def search_db_pattern match_db_pattern try_len_none splits_at_none)

lemma later_no_split:
  assumes l: "l \<noteq> []" and no: "\<not> sublist l (tl l @ n)" and i: "length p < i"
  shows "\<not> splits_at l (p @ l @ n) i"
proof
  assume "splits_at l (p @ l @ n) i"
  then have "sublist l (drop i (p @ l @ n))" by (rule splits_at_sublist)
  moreover have "drop i (p @ l @ n) = drop (i - Suc (length p)) (tl l @ n)"
    using l i by (cases l) (simp_all add: drop_Cons' )
  ultimately show False using no sublist_drop by metis
qed

lemma split_found:
  assumes l: "l = ''/databases/''" and p: "list_all dot p" and n: "list_all dot n"
    and no: "\<not> sublist l (tl l @ n)"
  shows "FindStringSubmatch db_pattern (p @ l @ n) = Some [p @ l @ n, p, n]"
proof -
  have ld: "list_all dot l" by (simp add: l dot_def)
  have full: "length (takeWhile dot (p @ l @ n)) = length (p @ l @ n)"
    unfolding takeWhile_full using p n ld by simp
  have sp: "splits_at l (p @ l @ n) (length p)"
    using n by (simp add: splits_at_def)
  have "try_len [Lit l, CapDotStar, Eol] 0 (p @ l @ n) (length (p @ l @ n))
          = Some ([take (length p) (p @ l @ n), drop (length p + length l) (p @ l @ n)], [])"
    using sp
  proof (rule try_len_last)
    show "length p \<le> length (p @ l @ n)" by simp
  next
    fix i assume "length p < i"
    then show "\<not> splits_at l (p @ l @ n) i"
      using later_no_split [OF _ no] l by auto
  qed
  then show ?thesis
    unfolding FindStringSubmatch_def search_db_pattern match_db_pattern full
    using l by simp
qed

section \<open>Claims\<close>

lemmas regex_eval = FindStringSubmatch_def db_pattern_def search.simps match_toks.simps try_len.simps dot_def

subsection \<open>The identifier parser\<close>

text \<open>
  Claim C1, as amended. For every parent and name without a newline character such
  that \<open>/databases/\<close> does not occur again to the right of the separating occurrence
  (it occurs neither in the name nor across the final slash of the separator and the
  start of the name), the parser of \<open>createDatabase\<close> extracts exactly the pair
  (parent, name), and the request carries them. For every identifier that contains no
  \<open>/databases/\<close> segment, \<open>createDatabase\<close> returns the error \<open>Invalid database id\<close>
  and issues no request.
\<close>

theorem createDatabase_identifier_parsed:
  "(list_all dot (parent @ name) \<and> \<not> sublist ''/databases/'' (''databases/'' @ name) \<longrightarrow>
      database_id_matches (parent @ ''/databases/'' @ name) = Inr (parent, name) \<and>
      hd (snd (createDatabase w (parent @ ''/databases/'' @ name))) =
        EvCreateDatabase \<lparr>Parent = parent,
          CreateStatement = ''CREATE DATABASE '' @ backtick @ name @ backtick,
          ExtraStatements = [ddl_Singers, ddl_Albums]\<rparr>) \<and>
   (\<not> sublist ''/databases/'' db \<longrightarrow>
      createDatabase w db = (Some (Errorf (''Invalid database id '' @ db)), []))"
proof (intro conjI impI)
  assume h: "list_all dot (parent @ name) \<and> \<not> sublist ''/databases/'' (''databases/'' @ name)"
  then have "FindStringSubmatch db_pattern (parent @ ''/databases/'' @ name)
      = Some [parent @ ''/databases/'' @ name, parent, name]"
    using split_found [of "''/databases/''" parent name] by simp
  then show m: "database_id_matches (parent @ ''/databases/'' @ name) = Inr (parent, name)"
    by (simp add: database_id_matches_def)
  show "hd (snd (createDatabase w (parent @ ''/databases/'' @ name))) =
        EvCreateDatabase \<lparr>Parent = parent,
          CreateStatement = ''CREATE DATABASE '' @ backtick @ name @ backtick,
          ExtraStatements = [ddl_Singers, ddl_Albums]\<rparr>"
    unfolding createDatabase_def m by (simp add: Let_def split: option.splits)
next
  assume "\<not> sublist ''/databases/'' db"
  then have "FindStringSubmatch db_pattern db = None" by (rule no_segment_no_match)
  then show "createDatabase w db = (Some (Errorf (''Invalid database id '' @ db)), [])"
    by (simp add: createDatabase_def database_id_matches_def)
qed

theorem createDatabase_identifier_parsed_witness:
  "database_id_matches ''projects/p/instances/i/databases/example-db''
     = Inr (''projects/p/instances/i'', ''example-db'') \<and>
   createDatabase quiet_world ''projects/p/instances/i''
     = (Some (Errorf ''Invalid database id projects/p/instances/i''), [])"
proof -
  have h1: "list_all dot (''projects/p/instances/i'' @ ''example-db'')" by (simp add: dot_def)
  have h2: "\<not> sublist ''/databases/'' (''databases/'' @ ''example-db'')" by (simp add: sublist_code(3))
  have h3: "\<not> sublist ''/databases/'' ''projects/p/instances/i''" by (simp add: sublist_code(3))
  show ?thesis
    using createDatabase_identifier_parsed [of "''projects/p/instances/i''" "''example-db''"
        quiet_world "''projects/p/instances/i''"] h1 h2 h3
    by simp
qed

text \<open>
  The claim as first stated fails on two kinds of identifier of the form
  parent\<open>/databases/\<close>name: when the name itself holds a \<open>/databases/\<close> segment the
  greedy first group takes more than the parent, and when a newline occurs the pattern
  does not match at all, since \<open>.\<close> excludes the newline.
\<close>

theorem createDatabase_identifier_counterexample:
  "database_id_matches (''a'' @ ''/databases/'' @ ''b/databases/c'') \<noteq> Inr (''a'', ''b/databases/c'') \<and>
   database_id_matches ((''a'' @ nl) @ ''/databases/'' @ ''b'')
     = Inl (Errorf (''Invalid database id '' @ (''a'' @ nl) @ ''/databases/'' @ ''b''))"
  by (simp add: database_id_matches_def regex_eval nl_def)

text \<open>
  Claim C10. Both groups may be empty and the first is greedy: \<open>/databases/\<close> parses
  into the pair of two empty strings, and \<open>a/databases/b/databases/c\<close> is split at the
  last occurrence, into the parent \<open>a/databases/b\<close> and the name \<open>c\<close>.
\<close>

theorem createDatabase_unusual_identifiers:
  "FindStringSubmatch db_pattern ''/databases/'' = Some [''/databases/'', [], []] \<and>
   database_id_matches ''/databases/'' = Inr ([], []) \<and>
   FindStringSubmatch db_pattern ''a/databases/b/databases/c''
     = Some [''a/databases/b/databases/c'', ''a/databases/b'', ''c''] \<and>
   database_id_matches ''a/databases/b/databases/c'' = Inr (''a/databases/b'', ''c'')"
  by (simp add: database_id_matches_def regex_eval)

subsection \<open>The row reader\<close>

lemma loop_all_decode:
  "list_all decodes rs \<Longrightarrow>
   queryAlbums_loop rs fin acc =
     (if fin = Done then Inr (acc @ map album_of_row rs) else Inl fin,
      replicate (Suc (length rs)) EvNext)"
proof (induction rs arbitrary: acc)
  case Nil
  then show ?case by simp
next
  case (Cons r rs)
  from Cons.prems obtain a b c where r: "Columns r = Inr (a, b, c)"
    by (cases "Columns r") (auto simp: decodes_def)
  from Cons.prems have "list_all decodes rs" by simp
  from Cons.IH [OF this] r show ?case
    by (simp add: album_of_row_def)
qed

lemma loop_decode_error:
  "list_all decodes pre \<Longrightarrow> Columns r = Inl e \<Longrightarrow>
   fst (queryAlbums_loop (pre @ r # post) fin acc) = Inl e"
proof (induction pre arbitrary: acc)
  case Nil
  then show ?case by simp
next
  case (Cons p pre)
  from Cons.prems obtain a b c where p: "Columns p = Inr (a, b, c)"
    by (cases "Columns p") (auto simp: decodes_def)
  from Cons.prems have "list_all decodes pre" by simp
  from Cons.IH [OF this Cons.prems(2)] p show ?case
    by (simp add: split_beta)
qed

lemma loop_returns_rows:
  "fst (queryAlbums_loop rs fin acc) = Inr albums \<Longrightarrow> fin = Done \<and> list_all decodes rs"
proof (induction rs arbitrary: acc)
  case Nil
  then show ?case by (simp split: if_splits)
next
  case (Cons r rs)
  then show ?case
    by (cases "Columns r") (auto simp: decodes_def split_beta)
qed

lemma loop_events: "\<exists>n. snd (queryAlbums_loop rs fin acc) = replicate n EvNext"
proof (induction rs arbitrary: acc)
  case Nil
  show ?case by (rule exI [of _ 1]) simp
next
  case (Cons r rs)
  show ?case
  proof (cases "Columns r")
    case (Inl e)
    then show ?thesis by (intro exI [of _ 1]) simp
  next
    case (Inr t)
    obtain a b c where t: "t = (a, b, c)" by (cases t) auto
    obtain n where "snd (queryAlbums_loop rs fin
        (acc @ [\<lparr>SingerId = a, AlbumId = b, AlbumTitle = c\<rparr>])) = replicate n EvNext"
      using Cons.IH by blast
    with Inr t show ?thesis
      by (intro exI [of _ "Suc n"]) (simp add: split_beta)
  qed
qed

lemma queryAlbums_fst:
  "fst (queryAlbums w s) =
     fst (queryAlbums_loop
            (rows (Query_iter w ''SELECT SingerId, AlbumId, AlbumTitle FROM Albums'' (Albums_tbl s)))
            (final (Query_iter w ''SELECT SingerId, AlbumId, AlbumTitle FROM Albums'' (Albums_tbl s))) [])"
  by (simp add: queryAlbums_def Let_def split_beta)

text \<open>
  Claim C5. The loop of \<open>queryAlbums\<close> ends normally exactly when \<open>iter.Next\<close> yields
  \<open>iterator.Done\<close>: when every row before it decodes, the albums collected are returned
  with a nil error; an error of \<open>Next\<close> other than \<open>Done\<close>, or the first error of
  \<open>row.Columns\<close>, is returned to the caller instead of a row list; and a row list
  is returned only in the first case.
\<close>

theorem queryAlbums_results:
  "(Query_iter wa ''SELECT SingerId, AlbumId, AlbumTitle FROM Albums'' (Albums_tbl sa)
        = RowIterator rsa Done \<and> list_all decodes rsa \<longrightarrow>
      fst (queryAlbums wa sa) = Inr (map album_of_row rsa)) \<and>
   (Query_iter wb ''SELECT SingerId, AlbumId, AlbumTitle FROM Albums'' (Albums_tbl sb)
        = RowIterator rsb eb \<and> list_all decodes rsb \<and> eb \<noteq> Done \<longrightarrow>
      fst (queryAlbums wb sb) = Inl eb) \<and>
   (Query_iter wc ''SELECT SingerId, AlbumId, AlbumTitle FROM Albums'' (Albums_tbl sc)
        = RowIterator (pre @ r # post) ec \<and> list_all decodes pre \<and> Columns r = Inl e \<longrightarrow>
      fst (queryAlbums wc sc) = Inl e) \<and>
   (fst (queryAlbums wd sd) = Inr albums \<longrightarrow>
      final (Query_iter wd ''SELECT SingerId, AlbumId, AlbumTitle FROM Albums'' (Albums_tbl sd))
        = Done \<and>
      list_all decodes
        (rows (Query_iter wd ''SELECT SingerId, AlbumId, AlbumTitle FROM Albums'' (Albums_tbl sd))))"
  by (auto simp: queryAlbums_fst loop_all_decode loop_decode_error dest: loop_returns_rows)

theorem queryAlbums_results_witness:
  "fst (queryAlbums
         (iter_world (RowIterator [Row (Inr (''s1'', ''a1'', ''Green'')),
                                   Row (Inr (''s2'', ''a2'', ''Terrified''))] Done)) empty_store)
     = Inr [\<lparr>SingerId = ''s1'', AlbumId = ''a1'', AlbumTitle = ''Green''\<rparr>,
            \<lparr>SingerId = ''s2'', AlbumId = ''a2'', AlbumTitle = ''Terrified''\<rparr>] \<and>
   fst (queryAlbums
         (iter_world (RowIterator [Row (Inr (''s1'', ''a1'', ''Green''))]
                        (StatusError Unavailable ''connection lost''))) empty_store)
     = Inl (StatusError Unavailable ''connection lost'') \<and>
   fst (queryAlbums
         (iter_world (RowIterator [Row (Inr (''s1'', ''a1'', ''Green'')),
                                   Row (Inl (StatusError InvalidArgument ''NULL title'')),
                                   Row (Inr (''s2'', ''a2'', ''Terrified''))] Done)) empty_store)
     = Inl (StatusError InvalidArgument ''NULL title'')"
  using queryAlbums_results
    [of "iter_world (RowIterator [Row (Inr (''s1'', ''a1'', ''Green'')),
                                  Row (Inr (''s2'', ''a2'', ''Terrified''))] Done)"
        empty_store
        "[Row (Inr (''s1'', ''a1'', ''Green'')), Row (Inr (''s2'', ''a2'', ''Terrified''))]"
        "iter_world (RowIterator [Row (Inr (''s1'', ''a1'', ''Green''))]
                        (StatusError Unavailable ''connection lost''))"
        empty_store
        "[Row (Inr (''s1'', ''a1'', ''Green''))]"
        "StatusError Unavailable ''connection lost''"
        "iter_world (RowIterator [Row (Inr (''s1'', ''a1'', ''Green'')),
                                  Row (Inl (StatusError InvalidArgument ''NULL title'')),
                                  Row (Inr (''s2'', ''a2'', ''Terrified''))] Done)"
        empty_store
        "[Row (Inr (''s1'', ''a1'', ''Green''))]"
        "Row (Inl (StatusError InvalidArgument ''NULL title''))"
        "[Row (Inr (''s2'', ''a2'', ''Terrified''))]"
        Done
        "StatusError InvalidArgument ''NULL title''"
        "iter_world (RowIterator [Row (Inr (''s1'', ''a1'', ''Green'')),
                                  Row (Inr (''s2'', ''a2'', ''Terrified''))] Done)"
        empty_store
        "[\<lparr>SingerId = ''s1'', AlbumId = ''a1'', AlbumTitle = ''Green''\<rparr>,
          \<lparr>SingerId = ''s2'', AlbumId = ''a2'', AlbumTitle = ''Terrified''\<rparr>]"]
  by (simp add: iter_world_def quiet_world_def decodes_def album_of_row_def)

text \<open>
  Claim C9. On every exit path of \<open>queryAlbums\<close> (exhaustion, an error of \<open>Next\<close>, an
  error of \<open>Columns\<close>) the iterator is stopped exactly once, as the last action.
\<close>

theorem queryAlbums_stops_once:
  "length (filter (\<lambda>e. e = EvStop) (snd (queryAlbums w s))) = 1 \<and>
   last (snd (queryAlbums w s)) = EvStop"
proof -
  obtain n where "snd (queryAlbums_loop
      (rows (Query_iter w ''SELECT SingerId, AlbumId, AlbumTitle FROM Albums'' (Albums_tbl s)))
      (final (Query_iter w ''SELECT SingerId, AlbumId, AlbumTitle FROM Albums'' (Albums_tbl s))) [])
      = replicate n EvNext"
    using loop_events by blast
  then show ?thesis
    by (simp add: queryAlbums_def Let_def split_beta)
qed

subsection \<open>The seed loader\<close>

lemma uuid_loop_ok:
  "\<forall>j<10. NewRandom_res w j = Inr (u j) \<Longrightarrow> length uuids = 10 \<Longrightarrow> i \<le> 10 \<Longrightarrow>
     uuid_loop w i uuids =
       (Inr (fold (\<lambda>j xs. xs[j := u j]) [i..<10] uuids), uuid_events u [i..<10])"
proof (induction w i uuids rule: uuid_loop.induct)
  case (1 w i uuids)
  show ?case
  proof (cases "i < 10")
    case True
    have r: "NewRandom_res w i = Inr (u i)" using "1.prems" True by simp
    have len: "length (uuids[i := u i]) = 10" using "1.prems" by simp
    have ih: "uuid_loop w (i + 1) (uuids[i := u i]) =
        (Inr (fold (\<lambda>j xs. xs[j := u j]) [i + 1..<10] (uuids[i := u i])),
         uuid_events u [i + 1..<10])"
      using "1.IH" [OF True r "1.prems"(1) len] True by simp
    have up: "[i..<10] = i # [i + 1..<10]" using True by (simp add: upt_conv_Cons)
    show ?thesis
      using True "1.prems" ih
      by (subst uuid_loop.simps) (simp add: r up uuid_events_def)
  next
    case False
    with "1.prems" have "i = 10" by simp
    then show ?thesis by (subst uuid_loop.simps) (simp add: uuid_events_def)
  qed
qed

lemma ten: "[0..<10] = [0, 1, 2, 3, 4, 5, 6, 7, 8, 9]"
  by (simp add: upt_rec)

lemma uuids_filled:
  "fold (\<lambda>j xs. xs[j := u j]) [0..<10] (replicate 10 []) = map u [0..<10]"
  unfolding ten by (simp add: numeral_eq_Suc)

lemma insert_records_ok:
  assumes ok: "\<forall>j<10. NewRandom_res w j = Inr (u j)"
  shows "insert_records w s =
     (case Apply w (singer_mutations (map u [0..<10])) s of
        (Some err, s1) \<Rightarrow>
          (Some err, s1, uuid_events u [0..<10] @ [EvApply (singer_mutations (map u [0..<10]))])
      | (None, s1) \<Rightarrow>
          (case Apply w (album_mutations (map u [0..<10])) s1 of
             (err, s2) \<Rightarrow>
               (err, s2, uuid_events u [0..<10] @
                  [EvApply (singer_mutations (map u [0..<10])),
                   EvApply (album_mutations (map u [0..<10]))])))"
  using uuid_loop_ok [of w u "replicate 10 []" 0, OF ok]
  by (simp add: insert_records_def uuids_filled Let_def)

lemma singer_mutations_map:
  "singer_mutations (map u [0..<10]) =
     [InsertOrUpdate ''Singers'' [''SingerId'', ''FirstName'', ''LastName''] [u 0, ''Marc'', ''Richards''],
      InsertOrUpdate ''Singers'' [''SingerId'', ''FirstName'', ''LastName''] [u 1, ''Catalina'', ''Smith''],
      InsertOrUpdate ''Singers'' [''SingerId'', ''FirstName'', ''LastName''] [u 2, ''Alice'', ''Trentor''],
      InsertOrUpdate ''Singers'' [''SingerId'', ''FirstName'', ''LastName''] [u 3, ''Lea'', ''Martin''],
      InsertOrUpdate ''Singers'' [''SingerId'', ''FirstName'', ''LastName''] [u 4, ''David'', ''Lomond'']]"
  unfolding ten by (simp add: singer_mutations_def singerColumns_def)

lemma album_mutations_map:
  "album_mutations (map u [0..<10]) =
     [InsertOrUpdate ''Albums'' [''SingerId'', ''AlbumId'', ''AlbumTitle''] [u 0, u 5, ''Total Junk''],
      InsertOrUpdate ''Albums'' [''SingerId'', ''AlbumId'', ''AlbumTitle''] [u 1, u 6, ''Go, Go, Go''],
      InsertOrUpdate ''Albums'' [''SingerId'', ''AlbumId'', ''AlbumTitle''] [u 0, u 7, ''Green''],
      InsertOrUpdate ''Albums'' [''SingerId'', ''AlbumId'', ''AlbumTitle''] [u 1, u 8, ''Forever Hold Your Peace''],
      InsertOrUpdate ''Albums'' [''SingerId'', ''AlbumId'', ''AlbumTitle''] [u 2, u 9, ''Terrified'']]"
  unfolding ten by (simp add: album_mutations_def albumColumns_def)

lemma uuid_events_no_Apply: "filter is_Apply (uuid_events u is) = []"
  by (induction "is") (simp_all add: uuid_events_def is_Apply_def)

lemma uuid_events_count: "length (filter (\<lambda>e. e = EvNewRandom) (uuid_events u is)) = length is"
  by (induction "is") (simp_all add: uuid_events_def)

text \<open>
  Claim C4. In every execution of \<open>insert\<close> in which applying the first batch (the five
  \<open>Singers\<close> rows) returns an error, \<open>insert\<close> returns that error, the only \<open>Apply\<close>
  of the run is that of the first batch, and the tables are left as they were: no row
  of \<open>Albums\<close> is written.
\<close>

theorem insert_records_first_batch_fails:
  "(\<forall>i<10. NewRandom_res w i = Inr (u i)) \<and>
   Apply_err w (singer_mutations (map u [0..<10])) = Some err \<Longrightarrow>
   fst (insert_records w s) = Some err \<and>
   fst (snd (insert_records w s)) = s \<and>
   filter is_Apply (snd (snd (insert_records w s)))
     = [EvApply (singer_mutations (map u [0..<10]))]"
proof -
  assume h: "(\<forall>i<10. NewRandom_res w i = Inr (u i)) \<and>
    Apply_err w (singer_mutations (map u [0..<10])) = Some err"
  then have ok: "\<forall>j<10. NewRandom_res w j = Inr (u j)" by simp
  from h have "insert_records w s =
      (Some err, s, uuid_events u [0..<10] @ [EvApply (singer_mutations (map u [0..<10]))])"
    unfolding insert_records_ok [OF ok] by (simp add: Apply_def)
  then show ?thesis
    by (simp add: uuid_events_no_Apply is_Apply_def)
qed

theorem insert_records_first_batch_fails_witness:
  "fst (insert_records singers_refused_world empty_store)
     = Some (StatusError Unavailable ''try again'') \<and>
   fst (snd (insert_records singers_refused_world empty_store)) = empty_store \<and>
   filter is_Apply (snd (snd (insert_records singers_refused_world empty_store)))
     = [EvApply (singer_mutations uuids_first)]"
proof -
  have m: "map (\<lambda>i. uuids_first ! i) [0..<10] = uuids_first"
    unfolding ten by (simp add: uuids_first_def)
  have h1: "\<forall>i<10. NewRandom_res singers_refused_world i = Inr (uuids_first ! i)"
    by (simp add: singers_refused_world_def first_world_def demo_world_def uuids_first_def)
  have h2: "Apply_err singers_refused_world (singer_mutations uuids_first)
      = Some (StatusError Unavailable ''try again'')"
    by (simp add: singers_refused_world_def singer_mutations_def)
  show ?thesis
    using insert_records_first_batch_fails
      [of singers_refused_world "\<lambda>i. uuids_first ! i" "StatusError Unavailable ''try again''"
          empty_store]
      h1 h2
    unfolding m by simp
qed

text \<open>
  Claim C6, as amended. In every run of \<open>insert\<close> in which the ten calls of
  \<open>uuid.NewRandom\<close> succeed, \<open>insert\<close> generates exactly ten identifiers and logs each
  with its index, builds exactly five \<open>Singers\<close> upserts with the fixed names, keyed by
  the first five identifiers, and exactly five \<open>Albums\<close> upserts with the fixed titles,
  each under one of the first three identifiers; the first batch is applied, and the
  second when the first returned no error.
\<close>

theorem insert_records_builds:
  "\<forall>i<10. NewRandom_res w i = Inr (u i) \<Longrightarrow>
   snd (snd (insert_records w s)) =
     uuid_events u [0, 1, 2, 3, 4, 5, 6, 7, 8, 9] @
     (if Apply_err w (singer_mutations (map u [0..<10])) = None
      then [EvApply (singer_mutations (map u [0..<10])),
            EvApply (album_mutations (map u [0..<10]))]
      else [EvApply (singer_mutations (map u [0..<10]))]) \<and>
   length (filter (\<lambda>e. e = EvNewRandom) (snd (snd (insert_records w s)))) = 10 \<and>
   singer_mutations (map u [0..<10]) =
     [InsertOrUpdate ''Singers'' [''SingerId'', ''FirstName'', ''LastName'']
        [u 0, ''Marc'', ''Richards''],
      InsertOrUpdate ''Singers'' [''SingerId'', ''FirstName'', ''LastName'']
        [u 1, ''Catalina'', ''Smith''],
      InsertOrUpdate ''Singers'' [''SingerId'', ''FirstName'', ''LastName'']
        [u 2, ''Alice'', ''Trentor''],
      InsertOrUpdate ''Singers'' [''SingerId'', ''FirstName'', ''LastName'']
        [u 3, ''Lea'', ''Martin''],
      InsertOrUpdate ''Singers'' [''SingerId'', ''FirstName'', ''LastName'']
        [u 4, ''David'', ''Lomond'']] \<and>
   album_mutations (map u [0..<10]) =
     [InsertOrUpdate ''Albums'' [''SingerId'', ''AlbumId'', ''AlbumTitle'']
        [u 0, u 5, ''Total Junk''],
      InsertOrUpdate ''Albums'' [''SingerId'', ''AlbumId'', ''AlbumTitle'']
        [u 1, u 6, ''Go, Go, Go''],
      InsertOrUpdate ''Albums'' [''SingerId'', ''AlbumId'', ''AlbumTitle'']
        [u 0, u 7, ''Green''],
      InsertOrUpdate ''Albums'' [''SingerId'', ''AlbumId'', ''AlbumTitle'']
        [u 1, u 8, ''Forever Hold Your Peace''],
      InsertOrUpdate ''Albums'' [''SingerId'', ''AlbumId'', ''AlbumTitle'']
        [u 2, u 9, ''Terrified'']]"
proof -
  assume ok: "\<forall>i<10. NewRandom_res w i = Inr (u i)"
  have ev: "snd (snd (insert_records w s)) =
     uuid_events u [0..<10] @
     (if Apply_err w (singer_mutations (map u [0..<10])) = None
      then [EvApply (singer_mutations (map u [0..<10])),
            EvApply (album_mutations (map u [0..<10]))]
      else [EvApply (singer_mutations (map u [0..<10]))])"
    unfolding insert_records_ok [OF ok] by (simp add: Apply_def split: option.splits)
  have n: "length (filter (\<lambda>e. e = EvNewRandom) (snd (snd (insert_records w s)))) = 10"
    unfolding ev by (simp add: uuid_events_count)
  show ?thesis
    using ev n singer_mutations_map [of u] album_mutations_map [of u]
    unfolding ten by blast
qed

theorem insert_records_builds_witness:
  "length (filter (\<lambda>e. e = EvNewRandom) (snd (snd (insert_records first_world empty_store))))
     = 10 \<and>
   drop 20 (snd (snd (insert_records first_world empty_store))) =
     [EvApply (singer_mutations uuids_first), EvApply (album_mutations uuids_first)]"
proof -
  have m: "map (\<lambda>i. uuids_first ! i) [0..<10] = uuids_first"
    unfolding ten by (simp add: uuids_first_def)
  have h: "\<forall>i<10. NewRandom_res first_world i = Inr (uuids_first ! i)"
    by (simp add: first_world_def demo_world_def uuids_first_def)
  have a: "Apply_err first_world (singer_mutations uuids_first) = None"
    by (simp add: first_world_def demo_world_def)
  show ?thesis
    using insert_records_builds [of first_world "\<lambda>i. uuids_first ! i" empty_store, OF h]
    unfolding m by (simp add: a uuid_events_def)
qed

text \<open>
  The claim as first stated fails when the random source fails: \<open>insert\<close> returns the
  error of the first call, having logged no identifier and built no mutation.
\<close>

theorem insert_records_random_source_counterexample:
  "insert_records quiet_world empty_store
     = (Some (Errorf ''no entropy''), empty_store, [EvNewRandom]) \<and>
   length (filter (\<lambda>e. e = EvNewRandom)
             (snd (snd (insert_records quiet_world empty_store)))) \<noteq> 10"
  by (simp add: insert_records_def uuid_loop.simps quiet_world_def)

subsection \<open>Seeding, then reading\<close>

lemma singers_keep_albums:
  "Albums_tbl (fold apply_mutation (singer_mutations us) s) = Albums_tbl s"
  by (simp add: singer_mutations_def)

lemma five_updates:
  "distinct [k1, k2, k3, k4, k5] \<Longrightarrow>
   AList.update k5 v5 (AList.update k4 v4 (AList.update k3 v3
     (AList.update k2 v2 (AList.update k1 v1 [])))) =
   [(k1, v1), (k2, v2), (k3, v3), (k4, v4), (k5, v5)]"
  by auto

lemma albums_written:
  assumes "Albums_tbl s = []"
    and "distinct [(u 0, u 5), (u 1, u 6), (u 0, u 7), (u 1, u 8), (u 2, u 9)]"
  shows "Albums_tbl (fold apply_mutation (album_mutations (map u [0..<10])) s) =
     [((u 0, u 5), ''Total Junk''), ((u 1, u 6), ''Go, Go, Go''), ((u 0, u 7), ''Green''),
      ((u 1, u 8), ''Forever Hold Your Peace''), ((u 2, u 9), ''Terrified'')]"
proof -
  have "Albums_tbl (fold apply_mutation (album_mutations (map u [0..<10])) s) =
      AList.update (u 2, u 9) ''Terrified''
        (AList.update (u 1, u 8) ''Forever Hold Your Peace''
          (AList.update (u 0, u 7) ''Green''
            (AList.update (u 1, u 6) ''Go, Go, Go''
              (AList.update (u 0, u 5) ''Total Junk'' []))))"
    unfolding album_mutations_map using assms(1)
    by (simp add: albumColumns_def del: AList.update.simps)
  also have "\<dots> =
     [((u 0, u 5), ''Total Junk''), ((u 1, u 6), ''Go, Go, Go''), ((u 0, u 7), ''Green''),
      ((u 1, u 8), ''Forever Hold Your Peace''), ((u 2, u 9), ''Terrified'')]"
    using assms(2) by (rule five_updates)
  finally show ?thesis .
qed

lemma decoded_triple: "decodes r \<Longrightarrow> album_triple (album_of_row r) = projr (Columns r)"
  by (cases "Columns r") (auto simp: decodes_def album_triple_def album_of_row_def)

lemma faithful_rows:
  assumes "mset (map Columns rs) = mset (map (\<lambda>kv. Inr (stored_triple kv)) tbl)"
  shows "list_all decodes rs"
    and "length rs = length tbl"
    and "mset (map (\<lambda>r. album_triple (album_of_row r)) rs) = mset (map stored_triple tbl)"
proof -
  have "set (map Columns rs) = set (map (\<lambda>kv. Inr (stored_triple kv)) tbl)"
    using assms by (rule mset_eq_setD)
  then have "\<forall>r\<in>set rs. Columns r \<in> range Inr" by auto
  then show d: "list_all decodes rs"
    by (auto simp: list_all_iff decodes_def)
  show "length rs = length tbl"
    using assms by (metis length_map mset_eq_length)
  have "map (\<lambda>r. album_triple (album_of_row r)) rs = map (\<lambda>r. projr (Columns r)) rs"
    using d by (simp add: list_all_iff decoded_triple)
  then have "mset (map (\<lambda>r. album_triple (album_of_row r)) rs) = mset (map (\<lambda>r. projr (Columns r)) rs)"
    by (rule arg_cong)
  also have "\<dots> = image_mset projr (mset (map Columns rs))"
    by (simp add: multiset.map_comp comp_def)
  also have "\<dots> = image_mset projr
      (mset (map (\<lambda>kv. Inr (stored_triple kv) :: error + string \<times> string \<times> string) tbl))"
    by (simp only: assms)
  also have "\<dots> = mset (map stored_triple tbl)"
    by (simp add: multiset.map_comp comp_def)
  finally show "mset (map (\<lambda>r. album_triple (album_of_row r)) rs) = mset (map stored_triple tbl)" .
qed

text \<open>
  Claim C2, as amended. When the seed step succeeds on a table \<open>Albums\<close> that held no
  row before it, the five keys (SingerId, AlbumId) written are pairwise distinct, and
  the service answers the query with the rows of the table in some order, then
  \<open>queryAlbums\<close> returns exactly five rows, and the multiset of their triples is that
  of the five rows of the second batch.
\<close>

theorem seed_then_query:
  assumes "\<forall>i<10. NewRandom_res w i = Inr (u i)"
    and "Apply_err w (singer_mutations (map u [0..<10])) = None"
    and "Apply_err w (album_mutations (map u [0..<10])) = None"
    and "Albums_tbl s = []"
    and "distinct [(u 0, u 5), (u 1, u 6), (u 0, u 7), (u 1, u 8), (u 2, u 9)]"
    and "\<forall>tbl. final (Query_iter w ''SELECT SingerId, AlbumId, AlbumTitle FROM Albums'' tbl) = Done \<and>
           mset (map Columns
                  (rows (Query_iter w ''SELECT SingerId, AlbumId, AlbumTitle FROM Albums'' tbl)))
             = mset (map (\<lambda>kv. Inr (stored_triple kv)) tbl)"
  shows "fst (insert_records w s) = None \<and>
    (\<exists>albums. fst (queryAlbums w (fst (snd (insert_records w s)))) = Inr albums \<and>
       length albums = 5 \<and>
       mset (map album_triple albums) =
         mset [(u 0, u 5, ''Total Junk''), (u 1, u 6, ''Go, Go, Go''), (u 0, u 7, ''Green''),
               (u 1, u 8, ''Forever Hold Your Peace''), (u 2, u 9, ''Terrified'')])"
proof -
  let ?q = "''SELECT SingerId, AlbumId, AlbumTitle FROM Albums''"
  let ?s1 = "fold apply_mutation (singer_mutations (map u [0..<10])) s"
  let ?s2 = "fold apply_mutation (album_mutations (map u [0..<10])) ?s1"
  have ins: "insert_records w s =
      (None, ?s2, uuid_events u [0..<10] @
         [EvApply (singer_mutations (map u [0..<10])),
          EvApply (album_mutations (map u [0..<10]))])"
    unfolding insert_records_ok [OF assms(1)] using assms(2,3) by (simp add: Apply_def)
  have "Albums_tbl ?s1 = []" using assms(4) by (simp only: singers_keep_albums)
  then have tbl: "Albums_tbl ?s2 =
     [((u 0, u 5), ''Total Junk''), ((u 1, u 6), ''Go, Go, Go''), ((u 0, u 7), ''Green''),
      ((u 1, u 8), ''Forever Hold Your Peace''), ((u 2, u 9), ''Terrified'')]"
    using assms(5) by (rule albums_written)
  let ?it = "Query_iter w ?q (Albums_tbl ?s2)"
  have fin: "final ?it = Done" using assms(6) by blast
  have ms: "mset (map Columns (rows ?it))
      = mset (map (\<lambda>kv. Inr (stored_triple kv)) (Albums_tbl ?s2))"
    using assms(6) by blast
  note f = faithful_rows [OF ms]
  have res: "fst (queryAlbums w ?s2) = Inr (map album_of_row (rows ?it))"
    unfolding queryAlbums_fst by (simp add: loop_all_decode [OF f(1)] fin)
  have len: "length (map album_of_row (rows ?it)) = 5" using f(2) by (simp add: tbl)
  have "map album_triple (map album_of_row (rows ?it))
      = map (\<lambda>r. album_triple (album_of_row r)) (rows ?it)"
    by simp
  then have "mset (map album_triple (map album_of_row (rows ?it))) =
         mset (map stored_triple (Albums_tbl ?s2))"
    by (simp only: f(3))
  then have ms5: "mset (map album_triple (map album_of_row (rows ?it))) =
         mset [(u 0, u 5, ''Total Junk''), (u 1, u 6, ''Go, Go, Go''), (u 0, u 7, ''Green''),
               (u 1, u 8, ''Forever Hold Your Peace''), (u 2, u 9, ''Terrified'')]"
    by (simp only: tbl) (simp add: stored_triple_def)
  have "fst (queryAlbums w (fst (snd (insert_records w s))))
      = Inr (map album_of_row (rows ?it))"
    by (simp only: ins fst_conv snd_conv res)
  moreover have "fst (insert_records w s) = None"
    by (simp only: ins fst_conv)
  ultimately show ?thesis
    using len ms5 by blast
qed

theorem seed_then_query_witness:
  "fst (insert_records first_world empty_store) = None \<and>
   (\<exists>albums. fst (queryAlbums first_world (fst (snd (insert_records first_world empty_store))))
        = Inr albums \<and>
      length albums = 5 \<and>
      mset (map album_triple albums) =
        mset [(uuids_first ! 0, uuids_first ! 5, ''Total Junk''),
              (uuids_first ! 1, uuids_first ! 6, ''Go, Go, Go''),
              (uuids_first ! 0, uuids_first ! 7, ''Green''),
              (uuids_first ! 1, uuids_first ! 8, ''Forever Hold Your Peace''),
              (uuids_first ! 2, uuids_first ! 9, ''Terrified'')])"
proof -
  have h1: "\<forall>i<10. NewRandom_res first_world i = Inr (uuids_first ! i)"
    by (simp add: first_world_def demo_world_def uuids_first_def)
  have h2: "Apply_err first_world (singer_mutations (map (\<lambda>i. uuids_first ! i) [0..<10])) = None"
    by (simp add: first_world_def demo_world_def)
  have h3: "Apply_err first_world (album_mutations (map (\<lambda>i. uuids_first ! i) [0..<10])) = None"
    by (simp add: first_world_def demo_world_def)
  have h4: "Albums_tbl empty_store = []"
    by (simp add: empty_store_def)
  have h5: "distinct [(uuids_first ! 0, uuids_first ! 5), (uuids_first ! 1, uuids_first ! 6),
      (uuids_first ! 0, uuids_first ! 7), (uuids_first ! 1, uuids_first ! 8),
      (uuids_first ! 2, uuids_first ! 9)]"
    by (simp add: uuids_first_def)
  have h6: "\<forall>tbl. final (Query_iter first_world
                ''SELECT SingerId, AlbumId, AlbumTitle FROM Albums'' tbl) = Done \<and>
      mset (map Columns (rows (Query_iter first_world
                ''SELECT SingerId, AlbumId, AlbumTitle FROM Albums'' tbl)))
        = mset (map (\<lambda>kv. Inr (stored_triple kv)) tbl)"
    by (simp add: first_world_def demo_world_def stored_rows_def comp_def)
  show ?thesis
    using seed_then_query [of first_world "\<lambda>i. uuids_first ! i" empty_store, OF h1 h2 h3 h4 h5 h6]
    by simp
qed

lemma first_world_uuids: "\<forall>j<10. NewRandom_res first_world j = Inr (uuids_first ! j)"
  by (simp add: first_world_def demo_world_def uuids_first_def)

lemma rerun_world_uuids: "\<forall>j<10. NewRandom_res rerun_world j = Inr (uuids_rerun ! j)"
  by (simp add: rerun_world_def demo_world_def uuids_rerun_def)

lemma uuids_first_map: "map (\<lambda>i. uuids_first ! i) [0..<10] = uuids_first"
  unfolding ten by (simp add: uuids_first_def)

lemma uuids_rerun_map: "map (\<lambda>i. uuids_rerun ! i) [0..<10] = uuids_rerun"
  unfolding ten by (simp add: uuids_rerun_def)

lemma demo_world_insert:
  assumes "\<forall>j<10. NewRandom_res (demo_world us c) j = Inr (us ! j)"
    and "map (\<lambda>i. us ! i) [0..<10] = us"
  shows "fst (insert_records (demo_world us c) s) = None"
    and "fst (snd (insert_records (demo_world us c) s)) =
      fold apply_mutation (album_mutations us) (fold apply_mutation (singer_mutations us) s)"
  unfolding insert_records_ok [OF assms(1)] assms(2)
  by (simp_all add: Apply_def demo_world_def)

lemma demo_world_query:
  "fst (queryAlbums (demo_world us c) s) = Inr (map album_of_row (stored_rows (Albums_tbl s)))"
proof -
  have "list_all decodes (stored_rows (Albums_tbl s))"
    by (simp add: stored_rows_def list_all_iff decodes_def)
  then show ?thesis
    unfolding queryAlbums_fst by (simp add: loop_all_decode demo_world_def)
qed

lemma rerun_albums:
  "length (Albums_tbl
     (fold apply_mutation (album_mutations uuids_rerun)
       (fold apply_mutation (singer_mutations uuids_rerun)
         (fold apply_mutation (album_mutations uuids_first)
           (fold apply_mutation (singer_mutations uuids_first) empty_store))))) = 10"
  by (simp add: singer_mutations_def album_mutations_def singerColumns_def albumColumns_def
      uuids_first_def uuids_rerun_def empty_store_def)

text \<open>
  The claim as first stated fails on a second run against the same database, which the
  entry point allows by tolerating \<open>AlreadyExists\<close>: the rows of the first run are
  still in the table, and the query returns ten rows.
\<close>

theorem seed_then_query_rerun_counterexample:
  "fst (insert_records rerun_world (fst (snd (insert_records first_world empty_store)))) = None \<and>
   map_sum id length
     (fst (queryAlbums rerun_world
            (fst (snd (insert_records rerun_world
                        (fst (snd (insert_records first_world empty_store)))))))) = Inr 10"
  using first_world_uuids rerun_world_uuids
  unfolding first_world_def rerun_world_def
  by (simp add: demo_world_insert uuids_first_map uuids_rerun_map demo_world_query
      stored_rows_def rerun_albums)

subsection \<open>The entry point\<close>

lemma example_db_matches:
  "database_id_matches example_db
     = Inr (''projects/create-table-test/instances/test-instance'', ''example-db'')"
proof -
  have "FindStringSubmatch db_pattern
      (''projects/create-table-test/instances/test-instance'' @ ''/databases/'' @ ''example-db'')
      = Some [''projects/create-table-test/instances/test-instance'' @ ''/databases/'' @ ''example-db'',
              ''projects/create-table-test/instances/test-instance'', ''example-db'']"
    by (rule split_found) (simp_all add: dot_def sublist_code(3))
  then show ?thesis
    by (simp add: database_id_matches_def example_db_def)
qed


lemma insert_records_starts:
  "\<exists>evs. snd (snd (insert_records w s)) = EvNewRandom # evs"
proof -
  have "\<exists>evs. snd (uuid_loop w 0 us) = EvNewRandom # evs" for us
    by (subst uuid_loop.simps) (simp add: split_beta split: sum.splits)
  then obtain evs where "snd (uuid_loop w 0 (replicate 10 [])) = EvNewRandom # evs"
    by blast
  then show ?thesis
    by (cases "uuid_loop w 0 (replicate 10 [])")
      (auto simp: insert_records_def Let_def split_beta split: sum.splits option.splits)
qed

lemma main_for_after_create:
  assumes "createClients w db = (Inr c, ev1)"
    and "createDatabase w db = (err, ev2)"
    and "err = None \<or> (\<exists>e. err = Some e \<and> ErrCode e = AlreadyExists)"
  shows "prefix (ev1 @ ev2 @ [EvNewRandom]) (snd (snd (main_for db w s)))"
proof -
  obtain evs where "snd (snd (insert_records w s)) = EvNewRandom # evs"
    using insert_records_starts by blast
  then show ?thesis
    using assms
    by (cases "insert_records w s"; cases "queryAlbums w (fst (snd (insert_records w s)))")
      (auto simp: main_for_def split: option.splits sum.splits)
qed

text \<open>
  Claim C3. When both clients are created and \<open>createDatabase\<close> returns an error whose
  code is \<open>AlreadyExists\<close>, the entry point treats it as not fatal: the run is the seed
  step and then the read, with no fatal entry for the database, and it ends as they
  end (a fatal exit only when \<open>insert\<close> or \<open>queryAlbums\<close> returns an error, a normal
  return otherwise); the next thing after \<open>createDatabase\<close> is the first call of
  \<open>uuid.NewRandom\<close>. For an error of any other code the entry point logs
  \<open>Create database\<close> fatally and the process exits with status 1, the tables untouched.
\<close>

theorem main_tolerates_already_exists:
  "(NewDatabaseAdminClient_err wa = None \<and> NewClient_err wa dba = None \<and>
    fst (createDatabase wa dba) = Some ea \<and> ErrCode ea = AlreadyExists \<longrightarrow>
      main_for dba wa sa =
        (case insert_records wa sa of
           (Some e, s1, ev3) \<Rightarrow>
             (Exit 1, s1,
              snd (createClients wa dba) @ snd (createDatabase wa dba) @ ev3 @
                [fatal ''insert records'' dba e])
         | (None, s1, ev3) \<Rightarrow>
             (case queryAlbums wa s1 of
                (Inl e, ev4) \<Rightarrow>
                  (Exit 1, s1,
                   snd (createClients wa dba) @ snd (createDatabase wa dba) @ ev3 @ ev4 @
                     [fatal ''query records'' dba e])
              | (Inr albums, ev4) \<Rightarrow>
                  (Returned, s1,
                   snd (createClients wa dba) @ snd (createDatabase wa dba) @ ev3 @ ev4 @
                     map row_log albums @ [EvSync]))) \<and>
      prefix (snd (createClients wa dba) @ snd (createDatabase wa dba) @ [EvNewRandom])
        (snd (snd (main_for dba wa sa)))) \<and>
   (NewDatabaseAdminClient_err wb = None \<and> NewClient_err wb dbb = None \<and>
    fst (createDatabase wb dbb) = Some eb \<and> ErrCode eb \<noteq> AlreadyExists \<longrightarrow>
      main_for dbb wb sb =
        (Exit 1, sb,
         snd (createClients wb dbb) @ snd (createDatabase wb dbb) @
           [fatal ''Create database'' dbb eb]))"
proof (intro conjI impI)
  assume h: "NewDatabaseAdminClient_err wa = None \<and> NewClient_err wa dba = None \<and>
    fst (createDatabase wa dba) = Some ea \<and> ErrCode ea = AlreadyExists"
  then have c: "createClients wa dba =
      (Inr \<lparr>admin = AdminHandle, client = DataHandle\<rparr>, snd (createClients wa dba))"
    by (simp add: createClients_def)
  have d: "createDatabase wa dba = (Some ea, snd (createDatabase wa dba))"
    using h by (cases "createDatabase wa dba") simp
  show "prefix (snd (createClients wa dba) @ snd (createDatabase wa dba) @ [EvNewRandom])
        (snd (snd (main_for dba wa sa)))"
    using main_for_after_create [OF c d] h by blast
  show "main_for dba wa sa =
        (case insert_records wa sa of
           (Some e, s1, ev3) \<Rightarrow>
             (Exit 1, s1,
              snd (createClients wa dba) @ snd (createDatabase wa dba) @ ev3 @
                [fatal ''insert records'' dba e])
         | (None, s1, ev3) \<Rightarrow>
             (case queryAlbums wa s1 of
                (Inl e, ev4) \<Rightarrow>
                  (Exit 1, s1,
                   snd (createClients wa dba) @ snd (createDatabase wa dba) @ ev3 @ ev4 @
                     [fatal ''query records'' dba e])
              | (Inr albums, ev4) \<Rightarrow>
                  (Returned, s1,
                   snd (createClients wa dba) @ snd (createDatabase wa dba) @ ev3 @ ev4 @
                     map row_log albums @ [EvSync])))"
    using h by (subst main_for_def, subst c, subst d) simp
next
  assume h: "NewDatabaseAdminClient_err wb = None \<and> NewClient_err wb dbb = None \<and>
    fst (createDatabase wb dbb) = Some eb \<and> ErrCode eb \<noteq> AlreadyExists"
  then show "main_for dbb wb sb =
        (Exit 1, sb,
         snd (createClients wb dbb) @ snd (createDatabase wb dbb) @
           [fatal ''Create database'' dbb eb])"
    by (cases "createDatabase wb dbb") (simp add: main_for_def createClients_def)
qed

lemma main_example_db: "main w s = main_for example_db w s"
  by (simp add: main_def example_db_def)

lemma createDatabase_example_db:
  "createDatabase (demo_world us c) example_db =
     (case c of
        Some err \<Rightarrow>
          (Some err,
           [EvCreateDatabase
              \<lparr>Parent = ''projects/create-table-test/instances/test-instance'',
               CreateStatement = ''CREATE DATABASE '' @ backtick @ ''example-db'' @ backtick,
               ExtraStatements = [ddl_Singers, ddl_Albums]\<rparr>])
      | None \<Rightarrow>
          (None,
           [EvCreateDatabase
              \<lparr>Parent = ''projects/create-table-test/instances/test-instance'',
               CreateStatement = ''CREATE DATABASE '' @ backtick @ ''example-db'' @ backtick,
               ExtraStatements = [ddl_Singers, ddl_Albums]\<rparr>,
            EvWait, EvInfo ''Created database'' [zap_String ''db'' example_db]]))"
  unfolding createDatabase_def example_db_matches
  by (simp add: demo_world_def split: option.splits)

lemma example_db_valid: "validDatabaseName example_db"
  by (simp add: validDatabaseName_def example_db_def)



lemma createClients_demo_world:
  "validDatabaseName db \<Longrightarrow>
   createClients (demo_world us c) db =
     (Inr \<lparr>admin = AdminHandle, client = DataHandle\<rparr>,
      [EvNewDatabaseAdminClient, EvNewClient db])"
  by (simp add: createClients_def demo_world_def NewClient_library_def)


theorem main_tolerates_already_exists_witness:
  "fst (main rerun_world empty_store) = Returned \<and>
   last (snd (snd (main rerun_world empty_store))) = EvSync \<and>
   prefix
     [EvNewDatabaseAdminClient, EvNewClient example_db,
      EvCreateDatabase
        \<lparr>Parent = ''projects/create-table-test/instances/test-instance'',
         CreateStatement = ''CREATE DATABASE '' @ backtick @ ''example-db'' @ backtick,
         ExtraStatements = [ddl_Singers, ddl_Albums]\<rparr>,
      EvNewRandom]
     (snd (snd (main rerun_world empty_store))) \<and>
   main denied_world empty_store =
     (Exit 1, empty_store,
      [EvNewDatabaseAdminClient, EvNewClient example_db,
       EvCreateDatabase
         \<lparr>Parent = ''projects/create-table-test/instances/test-instance'',
          CreateStatement = ''CREATE DATABASE '' @ backtick @ ''example-db'' @ backtick,
          ExtraStatements = [ddl_Singers, ddl_Albums]\<rparr>,
       fatal ''Create database'' example_db
         (StatusError PermissionDenied ''caller lacks permission'')])"
proof -
  have a: "NewDatabaseAdminClient_err rerun_world = None \<and>
      NewClient_err rerun_world example_db = None \<and>
      fst (createDatabase rerun_world example_db)
        = Some (StatusError AlreadyExists ''Database already exists'') \<and>
      ErrCode (StatusError AlreadyExists ''Database already exists'') = AlreadyExists"
    unfolding rerun_world_def createDatabase_example_db
    by (simp add: demo_world_def NewClient_library_def example_db_valid)
  have b: "NewDatabaseAdminClient_err denied_world = None \<and>
      NewClient_err denied_world example_db = None \<and>
      fst (createDatabase denied_world example_db)
        = Some (StatusError PermissionDenied ''caller lacks permission'') \<and>
      ErrCode (StatusError PermissionDenied ''caller lacks permission'') \<noteq> AlreadyExists"
    unfolding denied_world_def createDatabase_example_db
    by (simp add: demo_world_def NewClient_library_def example_db_valid)
  have "fst (insert_records rerun_world empty_store) = None"
    using rerun_world_uuids unfolding rerun_world_def
    by (simp add: demo_world_insert uuids_rerun_map)
  then obtain s1 ev3 where i: "insert_records rerun_world empty_store = (None, s1, ev3)"
    by (cases "insert_records rerun_world empty_store") simp
  have "fst (queryAlbums rerun_world s1) = Inr (map album_of_row (stored_rows (Albums_tbl s1)))"
    unfolding rerun_world_def by (rule demo_world_query)
  then obtain ev4 where q: "queryAlbums rerun_world s1 =
      (Inr (map album_of_row (stored_rows (Albums_tbl s1))), ev4)"
    by (cases "queryAlbums rerun_world s1") simp
  have c1: "createClients rerun_world example_db =
      (Inr \<lparr>admin = AdminHandle, client = DataHandle\<rparr>,
       [EvNewDatabaseAdminClient, EvNewClient example_db])"
    unfolding rerun_world_def using example_db_valid by (rule createClients_demo_world)
  have c2: "createClients denied_world example_db =
      (Inr \<lparr>admin = AdminHandle, client = DataHandle\<rparr>,
       [EvNewDatabaseAdminClient, EvNewClient example_db])"
    unfolding denied_world_def using example_db_valid by (rule createClients_demo_world)
  have d1: "snd (createDatabase rerun_world example_db) =
      [EvCreateDatabase
        \<lparr>Parent = ''projects/create-table-test/instances/test-instance'',
         CreateStatement = ''CREATE DATABASE '' @ backtick @ ''example-db'' @ backtick,
         ExtraStatements = [ddl_Singers, ddl_Albums]\<rparr>]"
    unfolding rerun_world_def createDatabase_example_db by simp
  have d2: "snd (createDatabase denied_world example_db) =
      [EvCreateDatabase
        \<lparr>Parent = ''projects/create-table-test/instances/test-instance'',
         CreateStatement = ''CREATE DATABASE '' @ backtick @ ''example-db'' @ backtick,
         ExtraStatements = [ddl_Singers, ddl_Albums]\<rparr>]"
    unfolding denied_world_def createDatabase_example_db by simp
  note t = main_tolerates_already_exists
      [of rerun_world example_db "StatusError AlreadyExists ''Database already exists''"
          empty_store
          denied_world example_db "StatusError PermissionDenied ''caller lacks permission''"
          empty_store]
  from t a have run: "main_for example_db rerun_world empty_store =
      (Returned, s1,
       snd (createClients rerun_world example_db) @ snd (createDatabase rerun_world example_db) @
         ev3 @ ev4 @ map row_log (map album_of_row (stored_rows (Albums_tbl s1))) @ [EvSync])"
    by (simp add: i q)
  from t a have start: "prefix
      (snd (createClients rerun_world example_db) @ snd (createDatabase rerun_world example_db) @
         [EvNewRandom])
      (snd (snd (main_for example_db rerun_world empty_store)))"
    by blast
  from t b have stop: "main_for example_db denied_world empty_store =
      (Exit 1, empty_store,
       snd (createClients denied_world example_db) @ snd (createDatabase denied_world example_db) @
         [fatal ''Create database'' example_db
            (StatusError PermissionDenied ''caller lacks permission'')])"
    by blast
  have "fst (main rerun_world empty_store) = Returned"
    unfolding main_example_db by (simp add: run)
  moreover have "last (snd (snd (main rerun_world empty_store))) = EvSync"
    unfolding main_example_db by (simp add: run)
  moreover have "prefix
     [EvNewDatabaseAdminClient, EvNewClient example_db,
      EvCreateDatabase
        \<lparr>Parent = ''projects/create-table-test/instances/test-instance'',
         CreateStatement = ''CREATE DATABASE '' @ backtick @ ''example-db'' @ backtick,
         ExtraStatements = [ddl_Singers, ddl_Albums]\<rparr>,
      EvNewRandom]
     (snd (snd (main rerun_world empty_store)))"
    unfolding main_example_db using start by (simp add: c1 d1)
  moreover have "main denied_world empty_store =
     (Exit 1, empty_store,
      [EvNewDatabaseAdminClient, EvNewClient example_db,
       EvCreateDatabase
         \<lparr>Parent = ''projects/create-table-test/instances/test-instance'',
          CreateStatement = ''CREATE DATABASE '' @ backtick @ ''example-db'' @ backtick,
          ExtraStatements = [ddl_Singers, ddl_Albums]\<rparr>,
       fatal ''Create database'' example_db
         (StatusError PermissionDenied ''caller lacks permission'')])"
    unfolding main_example_db using stop by (simp add: c2 d2)
  ultimately show ?thesis by blast
qed






lemma is_Close_events:
  "\<not> is_Close EvNewDatabaseAdminClient" "\<not> is_Close (EvNewClient db)"
  "\<not> is_Close (EvCreateDatabase req)" "\<not> is_Close EvWait" "\<not> is_Close EvNewRandom"
  "\<not> is_Close (EvApply ms)" "\<not> is_Close (EvQuery stmt)" "\<not> is_Close EvNext"
  "\<not> is_Close EvStop" "\<not> is_Close (EvInfo msg fs)" "\<not> is_Close (EvFatal msg fs)"
  "\<not> is_Close EvSync"
  by (simp_all add: is_Close_def)

lemma uuid_loop_no_close: "filter is_Close (snd (uuid_loop w i uuids)) = []"
proof (induction w i uuids rule: uuid_loop.induct)
  case (1 w i uuids)
  show ?case
  proof (cases "i < 10")
    case True
    show ?thesis
    proof (cases "NewRandom_res w i")
      case (Inl err)
      with True show ?thesis
        by (subst uuid_loop.simps) (simp add: is_Close_events)
    next
      case (Inr u)
      with True "1.IH" [OF True Inr] show ?thesis
        by (subst uuid_loop.simps) (simp add: is_Close_events split_beta)
    qed
  next
    case False
    then show ?thesis by (subst uuid_loop.simps) simp
  qed
qed

lemma insert_records_no_close: "filter is_Close (snd (snd (insert_records w s))) = []"
  using uuid_loop_no_close [of w 0 "replicate 10 []"]
  by (cases "uuid_loop w 0 (replicate 10 [])")
    (auto simp: insert_records_def Let_def is_Close_events split_beta
      split: sum.splits option.splits)

lemma queryAlbums_no_close: "filter is_Close (snd (queryAlbums w s)) = []"
proof -
  obtain n where "snd (queryAlbums_loop
      (rows (Query_iter w ''SELECT SingerId, AlbumId, AlbumTitle FROM Albums'' (Albums_tbl s)))
      (final (Query_iter w ''SELECT SingerId, AlbumId, AlbumTitle FROM Albums'' (Albums_tbl s))) [])
      = replicate n EvNext"
    using loop_events by blast
  then show ?thesis
    by (simp add: queryAlbums_def Let_def split_beta is_Close_events)
qed

lemma createClients_no_close: "filter is_Close (snd (createClients w db)) = []"
  by (simp add: createClients_def is_Close_events split: option.splits)

lemma createDatabase_no_close: "filter is_Close (snd (createDatabase w db)) = []"
  by (simp add: createDatabase_def is_Close_events Let_def split: option.splits sum.splits prod.splits)

lemma row_log_no_close: "filter is_Close (map row_log albums) = []"
  by (induction albums) (simp_all add: row_log_def is_Close_events)

lemma main_for_no_close: "filter is_Close (snd (snd (main_for db w s))) = []"
proof -
  have f: "\<not> is_Close (fatal msg d e)" for msg d e
    by (simp add: fatal_def is_Close_events)
  have y: "\<not> is_Close EvSync" by (simp add: is_Close_events)
  show ?thesis
    using createClients_no_close [of w db] createDatabase_no_close [of w db]
      insert_records_no_close [of w s]
      queryAlbums_no_close [of w "fst (snd (insert_records w s))"]
    by (cases "createClients w db"; cases "createDatabase w db"; cases "insert_records w s";
        cases "queryAlbums w (fst (snd (insert_records w s)))")
      (auto simp: main_for_def f y row_log_no_close split: option.splits sum.splits)
qed

text \<open>
  Claim C7 does not hold of the code: \<open>main\<close> never calls \<open>Client.Close\<close>. In the run
  where every call succeeds \<open>main\<close> returns without closing either handle, and in a
  run that ends in \<open>logger.Fatal\<close> the process exits without closing them.
\<close>

theorem main_never_closes:
  "fst (main first_world empty_store) = Returned \<and>
   filter is_Close (snd (snd (main first_world empty_store))) = [] \<and>
   fst (main denied_world empty_store) = Exit 1 \<and>
   filter is_Close (snd (snd (main denied_world empty_store))) = []"
proof -
  have "fst (main first_world empty_store) = Returned"
    unfolding main_example_db first_world_def
    using first_world_uuids uuids_first_map
    by (simp add: main_for_def createClients_demo_world example_db_valid
        createDatabase_example_db
        demo_world_insert demo_world_query first_world_def split_beta
        split: option.splits sum.splits)
  moreover have "fst (main denied_world empty_store) = Exit 1"
    unfolding main_example_db denied_world_def
    by (simp add: main_for_def createClients_demo_world example_db_valid
        createDatabase_example_db)
  ultimately show ?thesis
    by (simp add: main_example_db main_for_no_close)
qed

end
